theory Spec2Isabelle
  imports Complex_Main "HOL-Library.Multiset"
begin

section \<open>Errors, random sources and tensors\<close>

text \<open>
  The exceptions that \<^verbatim>\<open>model.py\<close> and the library calls it makes can raise. An
  assertion carries the message the source formats. \<^verbatim>\<open>sys.exit(-1)\<close> raises
  \<^verbatim>\<open>SystemExit\<close> with the exit code. \<open>NotANumber\<close> marks the one place where the
  library would produce a NaN (the mean over an empty dimension), which a tensor of real
  numbers cannot hold.
\<close>

datatype error =
    AssertionError string
  | NotImplementedError
  | SystemExit int
  | IndexError
  | ValueError
  | RuntimeError
  | ZeroDivisionError
  | KeyError
  | NotANumber

text \<open>
  A random generator is the stream of raw numbers it will produce; drawing one advances
  the stream. The source uses two global generators: NumPy's (\<^verbatim>\<open>np.random.shuffle\<close>,
  \<^verbatim>\<open>np.random.randint\<close>) and PyTorch's (\<^verbatim>\<open>xavier_uniform_\<close>, \<^verbatim>\<open>Dropout\<close>).
\<close>

type_synonym rng = "nat \<Rightarrow> nat"

definition bind_err :: "error + 'a \<Rightarrow> ('a \<Rightarrow> error + 'b) \<Rightarrow> error + 'b" where
  \<comment> \<open>sequencing: an exception of the first computation ends the whole\<close>
  "bind_err m f = (case m of Inl e \<Rightarrow> Inl e | Inr v \<Rightarrow> f v)"

definition next_raw :: "rng \<Rightarrow> nat \<times> rng" where
  "next_raw g = (g 0, \<lambda>n. g (Suc n))"

definition advance :: "nat \<Rightarrow> rng \<Rightarrow> rng" where
  "advance k g = (\<lambda>n. g (n + k))"

definition unit_sample :: "nat \<Rightarrow> real" where
  \<comment> \<open>a raw number read as a sample of the half-open unit interval\<close>
  "unit_sample r = real (r mod 16777216) / 16777216"

definition randint :: "rng \<Rightarrow> int \<Rightarrow> int \<Rightarrow> error + int \<times> rng" where
  \<comment> \<open>\<^verbatim>\<open>np.random.randint(low, high)\<close>: an integer of \<open>[low, high)\<close>, ValueError when it is empty\<close>
  "randint g low high =
     (if low \<ge> high then Inl ValueError
      else (let (r, g') = next_raw g in Inr (low + int r mod (high - low), g')))"

definition swap :: "nat \<Rightarrow> nat \<Rightarrow> 'a list \<Rightarrow> 'a list" where
  "swap i j xs = xs[i := xs ! j, j := xs ! i]"

fun shuffle_loop :: "nat \<Rightarrow> rng \<Rightarrow> 'a list \<Rightarrow> 'a list \<times> rng" where
  "shuffle_loop 0 g xs = (xs, g)"
| "shuffle_loop (Suc i) g xs =
     (let (r, g') = next_raw g; j = r mod (Suc (Suc i))
      in shuffle_loop i g' (swap (Suc i) j xs))"

definition shuffle :: "rng \<Rightarrow> 'a list \<Rightarrow> 'a list \<times> rng" where
  \<comment> \<open>\<^verbatim>\<open>np.random.shuffle\<close>: for \<open>i\<close> from the last index down to 1, exchange the entry
      at \<open>i\<close> with the entry at a random index of \<open>[0, i]\<close>\<close>
  "shuffle g xs = shuffle_loop (length xs - 1) g xs"

text \<open>
  A tensor is its shape and its elements in row-major order. The elements are real
  numbers: the functions below are the mathematical functions that the floating-point
  kernels of the library approximate; rounding, infinities and devices are not modelled.
\<close>

record tensor =
  shape :: "nat list"
  data :: "real list"

definition numel :: "nat list \<Rightarrow> nat" where
  "numel shp = prod_list shp"


definition zeros :: "nat list \<Rightarrow> tensor" where
  "zeros shp = \<lparr>shape = shp, data = replicate (numel shp) 0\<rparr>"

definition digit_char :: "nat \<Rightarrow> char" where
  "digit_char d = ''0123456789'' ! d"

fun show_nat :: "nat \<Rightarrow> string" where
  "show_nat n = (if n < 10 then [digit_char n] else show_nat (n div 10) @ [digit_char (n mod 10)])"

fun join_comma :: "string list \<Rightarrow> string" where
  "join_comma [] = []"
| "join_comma [s] = s"
| "join_comma (s # ss) = s @ '', '' @ join_comma ss"

definition show_size :: "nat list \<Rightarrow> string" where
  \<comment> \<open>how \<^verbatim>\<open>str.format\<close> prints a \<^verbatim>\<open>torch.Size\<close>\<close>
  "show_size shp = ''torch.Size(['' @ join_comma (map show_nat shp) @ ''])''"

definition unsqueeze1 :: "tensor \<Rightarrow> error + tensor" where
  \<comment> \<open>\<^verbatim>\<open>t.unsqueeze(1)\<close>: a new dimension of size 1 at position 1\<close>
  "unsqueeze1 t =
     (case shape t of [] \<Rightarrow> Inl IndexError
      | n # rest \<Rightarrow> Inr (t\<lparr>shape := n # 1 # rest\<rparr>))"

definition slice_last :: "tensor \<Rightarrow> nat \<Rightarrow> nat \<Rightarrow> error + tensor" where
  \<comment> \<open>\<^verbatim>\<open>t[..., lo:hi]\<close>: the slice bounds are clamped to the length of the last dimension\<close>
  "slice_last t lo hi =
     (if shape t = [] then Inl IndexError
      else (let L = last (shape t); lo' = min lo L; hi' = min hi L; w = hi' - lo';
                m = numel (butlast (shape t))
            in Inr \<lparr>shape = butlast (shape t) @ [w],
                    data = concat (map (\<lambda>i. take w (drop (i * L + lo') (data t))) [0..<m])\<rparr>))"

definition permute3 :: "nat \<times> nat \<times> nat \<Rightarrow> tensor \<Rightarrow> error + tensor" where
  \<comment> \<open>\<^verbatim>\<open>t.permute((p0, p1, p2))\<close> on a rank-3 tensor: output dimension \<open>k\<close> is input
      dimension \<open>pk\<close>\<close>
  "permute3 p t =
     (case (p, shape t) of
        ((p0, p1, p2), [s0, s1, s2]) \<Rightarrow>
          (if set [p0, p1, p2] \<noteq> {0, 1, 2} then Inl RuntimeError
           else (let s = [s0, s1, s2]; n0 = s ! p0; n1 = s ! p1; n2 = s ! p2
                 in Inr \<lparr>shape = [n0, n1, n2],
                         data = concat (map (\<lambda>i0. concat (map (\<lambda>i1. map (\<lambda>i2.
                                  (let j = [0, 0, 0][p0 := i0, p1 := i1, p2 := i2]
                                   in data t ! (j ! 0 * s1 * s2 + j ! 1 * s2 + j ! 2)))
                                  [0..<n2]) [0..<n1])) [0..<n0])\<rparr>))
      | _ \<Rightarrow> Inl RuntimeError)"

definition cat1 :: "tensor list \<Rightarrow> error + tensor" where
  \<comment> \<open>\<^verbatim>\<open>torch.cat(ts, dim=1)\<close>: the tensors agree on every dimension but dimension 1\<close>
  "cat1 ts =
     (case ts of [] \<Rightarrow> Inl RuntimeError
      | t # _ \<Rightarrow>
        (case shape t of
           b # _ # rest \<Rightarrow>
             (if list_all (\<lambda>u. 2 \<le> length (shape u) \<and> hd (shape u) = b \<and> drop 2 (shape u) = rest) ts
              then Inr \<lparr>shape = b # sum_list (map (\<lambda>u. shape u ! 1) ts) # rest,
                        data = concat (map (\<lambda>i. concat (map (\<lambda>u.
                                 (let c = (shape u ! 1) * numel rest
                                  in take c (drop (i * c) (data u)))) ts)) [0..<b])\<rparr>
              else Inl RuntimeError)
         | _ \<Rightarrow> Inl IndexError))"

definition mean1 :: "tensor \<Rightarrow> error + tensor" where
  \<comment> \<open>\<^verbatim>\<open>torch.mean(t, dim=1)\<close>\<close>
  "mean1 t =
     (case shape t of
        b # n # rest \<Rightarrow>
          (if n = 0 then Inl NotANumber
           else (let R = numel rest
                 in Inr \<lparr>shape = b # rest,
                         data = concat (map (\<lambda>i. map (\<lambda>r.
                                  sum_list (map (\<lambda>j. data t ! (i * n * R + j * R + r)) [0..<n]) / real n)
                                  [0..<R]) [0..<b])\<rparr>))
      | _ \<Rightarrow> Inl IndexError)"

definition flatten1 :: "tensor \<Rightarrow> error + tensor" where
  \<comment> \<open>\<^verbatim>\<open>torch.flatten(t, start_dim=1, end_dim=-1)\<close>\<close>
  "flatten1 t =
     (case shape t of
        b # n # rest \<Rightarrow> Inr (t\<lparr>shape := [b, numel (n # rest)]\<rparr>)
      | _ \<Rightarrow> Inl IndexError)"

definition leaky_relu :: "real \<Rightarrow> real" where
  \<comment> \<open>\<^verbatim>\<open>nn.LeakyReLU\<close> with its default negative slope\<close>
  "leaky_relu v = max 0 v + (1 / 100) * min 0 v"


definition xavier_uniform :: "rng \<Rightarrow> nat list \<Rightarrow> error + tensor \<times> rng" where
  \<comment> \<open>\<^verbatim>\<open>nn.init.xavier_uniform_(torch.Tensor(*shp))\<close>: every element uniform in \<open>[-a, a]\<close>
      with \<open>a = sqrt (6 / (fan_in + fan_out))\<close>\<close>
  "xavier_uniform g shp =
     (case shp of
        s0 # s1 # rest \<Rightarrow>
          (let fan_in = s1 * numel rest; fan_out = s0 * numel rest
           in if fan_in + fan_out = 0 then Inl ZeroDivisionError
              else (let a = sqrt (6 / real (fan_in + fan_out))
                    in Inr (\<lparr>shape = shp,
                             data = map (\<lambda>n. a * (2 * unit_sample (g n) - 1)) [0..<numel shp]\<rparr>,
                            advance (numel shp) g)))
      | _ \<Rightarrow> Inl ValueError)"

definition to_cuda :: "tensor \<Rightarrow> tensor" where
  \<comment> \<open>\<^verbatim>\<open>t.cuda()\<close>: the same shape and elements on another device\<close>
  "to_cuda t = t"

section \<open>FeatureExtractor\<close>

text \<open>
  \<^verbatim>\<open>nn.Conv1d(in, out, kernel_size=1, bias=True)\<close> with its weight and bias, followed by
  \<^verbatim>\<open>nn.LeakyReLU\<close>: the module \<^verbatim>\<open>self.conv1x1\<close>.
\<close>

record conv1d =
  in_channels :: nat
  out_channels :: nat
  cweight :: "nat \<Rightarrow> nat \<Rightarrow> real"
  cbias :: "nat \<Rightarrow> real"

definition apply_conv1x1 :: "conv1d \<Rightarrow> tensor \<Rightarrow> error + tensor" where
  "apply_conv1x1 c t =
     (case shape t of
        [b, ch, T] \<Rightarrow>
          (if ch \<noteq> in_channels c then Inl RuntimeError
           else Inr \<lparr>shape = [b, out_channels c, T],
                    data = concat (map (\<lambda>i. concat (map (\<lambda>oc. map (\<lambda>s.
                             leaky_relu (cbias c oc +
                               sum_list (map (\<lambda>k. cweight c oc k * data t ! (i * ch * T + k * T + s)) [0..<ch])))
                             [0..<T]) [0..<out_channels c])) [0..<b])\<rparr>)
      | _ \<Rightarrow> Inl RuntimeError)"

type_synonym backbone = "tensor \<Rightarrow> error + tensor"

type_synonym recurrent =
  "tensor \<Rightarrow> (tensor \<times> tensor) option \<Rightarrow> error + tensor \<times> (tensor \<times> tensor)"

text \<open>
  What the constructor imports and cannot be read from \<^verbatim>\<open>model.py\<close>: the backbones of
  \<^verbatim>\<open>arch.resnet\<close>, keyed by depth and applied to the channel count; \<^verbatim>\<open>nn.LSTM\<close>, applied
  to input and hidden size, which maps an input and an optional initial state to the
  output sequence and the final state; and the initial weight and bias of the
  convolution.
\<close>

record environment =
  resnet :: "int \<Rightarrow> nat \<Rightarrow> backbone"
  lstm :: "nat \<Rightarrow> nat \<Rightarrow> recurrent"
  conv_weight :: "nat \<Rightarrow> nat \<Rightarrow> real"
  conv_bias :: "nat \<Rightarrow> real"

record feature_extractor =
  time_len :: nat
  sequence_num :: nat
  output_dim :: nat
  cnn_type :: string
  time_type :: string
  fc_layers :: int
  cuda :: bool
  dropout :: bool
  cnn_config :: int
  conv :: backbone
  time_hid_dim :: nat
  time_net :: recurrent
  conv1x1 :: conv1d
  fc_dim :: nat

definition resdim :: "int \<rightharpoonup> nat" where
  "resdim = [18 \<mapsto> 512, 34 \<mapsto> 512, 50 \<mapsto> 2048, 101 \<mapsto> 2048, 152 \<mapsto> 2048]"

definition init_hidden ::
  "feature_extractor \<Rightarrow> rng \<Rightarrow> nat \<Rightarrow> nat \<Rightarrow> nat \<Rightarrow> error + (tensor \<times> tensor) option \<times> rng" where
  "init_hidden self g hidden_dim batch layer =
     bind_err (xavier_uniform g [layer, batch, hidden_dim]) (\<lambda>(h0, g1).
       (let document_rnn_init_h = (if cuda self then to_cuda h0 else h0)
        in if time_type self = ''lstm''
           then bind_err (xavier_uniform g1 [layer, batch, hidden_dim]) (\<lambda>(c0, g2).
                  (let document_rnn_init_c = (if cuda self then to_cuda document_rnn_init_h else c0)
                   in Inr (Some (document_rnn_init_h, document_rnn_init_c), g2)))
           else Inr (None, g1)))"

definition channel_assert :: "feature_extractor \<Rightarrow> tensor \<Rightarrow> error + tensor" where
  \<comment> \<open>the head of \<^verbatim>\<open>get_feature\<close>: the inserted channel dimension and the assertion\<close>
  "channel_assert self dynamic =
     bind_err (if length (shape dynamic) = 2 then unsqueeze1 dynamic else Inr dynamic) (\<lambda>dynamic.
       if length (shape dynamic) < 2 then Inl IndexError
       else if shape dynamic ! 1 \<noteq> sequence_num self
         then Inl (AssertionError (''Dynamic shape: '' @ show_size (shape dynamic)
                                   @ '' seq num: '' @ show_nat (sequence_num self)))
         else Inr dynamic)"

definition run_time_net ::
  "feature_extractor \<Rightarrow> rng \<Rightarrow> tensor \<Rightarrow> nat \<Rightarrow> bool \<Rightarrow> error + tensor \<times> rng" where
  \<comment> \<open>the recurrent step of \<^verbatim>\<open>get_feature\<close>; of the pair the LSTM returns, the output is kept\<close>
  "run_time_net self g x batch reset =
     (if reset \<and> time_type self \<in> set [''lstm'']
      then bind_err (init_hidden self g (time_hid_dim self) batch 1) (\<lambda>(hidden, g').
             bind_err (time_net self x hidden) (\<lambda>out. Inr (fst out, g')))
      else bind_err (time_net self x None) (\<lambda>out. Inr (fst out, g)))"

definition get_feature ::
  "feature_extractor \<Rightarrow> rng \<Rightarrow> tensor \<Rightarrow> int \<Rightarrow> bool \<Rightarrow> error + tensor \<times> rng" where
  "get_feature self g dynamic batch reset =
     (case shape dynamic of
        [] \<Rightarrow> Inl IndexError
      | b # _ \<Rightarrow>
          (let batch = b
           in bind_err (channel_assert self dynamic) (\<lambda>dynamic.
              bind_err (conv self dynamic) (\<lambda>x.
              bind_err (permute3 (2, 0, 1) x) (\<lambda>x.
              bind_err (run_time_net self g x batch reset) (\<lambda>(x, g').
              bind_err (permute3 (1, 2, 0) x) (\<lambda>x.
              bind_err (apply_conv1x1 (conv1x1 self) x) (\<lambda>x. Inr (x, g')))))))))"

fun window_loop ::
  "feature_extractor \<Rightarrow> rng \<Rightarrow> tensor \<Rightarrow> int \<Rightarrow> bool \<Rightarrow> nat list \<Rightarrow> tensor list
     \<Rightarrow> error + tensor list \<times> rng" where
  "window_loop self g dynamic batch reset [] feature = Inr (feature, g)"
| "window_loop self g dynamic batch reset (i # idx) feature =
     bind_err (slice_last dynamic (i * time_len self) ((i + 1) * time_len self)) (\<lambda>window.
     bind_err (get_feature self g window batch reset) (\<lambda>(fea, g').
     bind_err (unsqueeze1 fea) (\<lambda>u.
       window_loop self g' dynamic batch reset idx (feature @ [u]))))"

definition pool_features :: "tensor list \<Rightarrow> error + tensor" where
  \<comment> \<open>\<^verbatim>\<open>torch.flatten(torch.mean(torch.cat(feature, dim=1), dim=1), start_dim=1, end_dim=-1)\<close>\<close>
  "pool_features feature = bind_err (cat1 feature) (\<lambda>c. bind_err (mean1 c) flatten1)"

definition draw_windows :: "feature_extractor \<Rightarrow> rng \<Rightarrow> tensor \<Rightarrow> error + (nat list \<times> int) \<times> rng" where
  \<comment> \<open>the divisibility assertion of \<^verbatim>\<open>forward\<close>, the shuffled window indices and \<open>off\<close>\<close>
  "draw_windows self np dynamic =
     (if shape dynamic = [] then Inl IndexError
      else if time_len self = 0 then Inl ZeroDivisionError
      else if last (shape dynamic) mod time_len self \<noteq> 0
        then Inl (AssertionError (''dynamic shape: '' @ show_size (shape dynamic)))
        else (let (idx, np1) = shuffle np [0..<last (shape dynamic) div time_len self]
              in bind_err (randint np1 1 (int (length idx) + 1)) (\<lambda>(off, np2).
                   Inr ((idx, off), np2))))"

definition forward ::
  "feature_extractor \<Rightarrow> rng \<Rightarrow> rng \<Rightarrow> tensor \<Rightarrow> tensor list option \<Rightarrow> int \<Rightarrow> bool
     \<Rightarrow> error + tensor \<times> rng \<times> rng" where
  \<comment> \<open>\<open>np\<close> is NumPy's generator, \<open>g\<close> PyTorch's; both are returned as the call leaves them\<close>
  "forward self np g dynamic feature batch reset =
     (case feature of
        None \<Rightarrow>
          bind_err (draw_windows self np dynamic) (\<lambda>((idx, off), np2).
          bind_err (window_loop self g dynamic batch reset (take (nat off) idx) []) (\<lambda>(feature, g').
          bind_err (pool_features feature) (\<lambda>out. Inr (out, np2, g'))))
      | Some feature \<Rightarrow> bind_err (pool_features feature) (\<lambda>out. Inr (out, np, g)))"

definition select_resnet :: "environment \<Rightarrow> int \<Rightarrow> nat \<Rightarrow> error + backbone" where
  \<comment> \<open>the chain of depth tests of the constructor; its message goes to the standard output\<close>
  "select_resnet env config seq_num =
     (if config = 18 then Inr (resnet env 18 seq_num)
      else if config = 34 then Inr (resnet env 34 seq_num)
      else if config = 50 then Inr (resnet env 50 seq_num)
      else if config = 101 then Inr (resnet env 101 seq_num)
      else if config = 152 then Inr (resnet env 152 seq_num)
      else Inl (SystemExit (- 1)))"

definition FeatureExtractor_init ::
  "environment \<Rightarrow> rng \<Rightarrow> nat \<Rightarrow> nat \<Rightarrow> nat \<Rightarrow> string \<Rightarrow> string \<Rightarrow> int \<Rightarrow> int \<Rightarrow> bool \<Rightarrow> bool
     \<Rightarrow> error + feature_extractor" where
  \<comment> \<open>the arguments in the source's order, after the imports and PyTorch's generator\<close>
  "FeatureExtractor_init env g time_len' sequence_num' output_dim' cnn_type' time_type'
       fc_layers' cnn_config' cuda' dropout' =
     bind_err
       (if cnn_type' = ''resnet''
        then bind_err (select_resnet env cnn_config' sequence_num') (\<lambda>conv'.
               case resdim cnn_config' of
                 None \<Rightarrow> Inl KeyError
               | Some conv_last_dim \<Rightarrow> Inr (conv', conv_last_dim))
        else Inl NotImplementedError)
       (\<lambda>(conv', conv_last_dim).
     bind_err
       (if time_type' = ''lstm'' then Inr (lstm env conv_last_dim conv_last_dim)
        else Inl NotImplementedError)
       (\<lambda>time_net'.
          (let self = \<lparr>time_len = time_len', sequence_num = sequence_num',
                       output_dim = output_dim', cnn_type = cnn_type', time_type = time_type',
                       fc_layers = fc_layers', cuda = cuda', dropout = dropout',
                       cnn_config = cnn_config', conv = conv',
                       time_hid_dim = conv_last_dim, time_net = time_net',
                       conv1x1 = \<lparr>in_channels = conv_last_dim, out_channels = 512,
                                  cweight = conv_weight env, cbias = conv_bias env\<rparr>,
                       fc_dim = 0\<rparr>
           in bind_err (get_feature self g (zeros [1, sequence_num', time_len']) 1 False) (\<lambda>(x, _).
                if numel (shape x) = 0 then Inl RuntimeError
                else Inr (self\<lparr>fc_dim := numel (shape x)\<rparr>)))))"

section \<open>Regressioner and Classifier\<close>


datatype module =
    Linear nat nat "nat \<Rightarrow> nat \<Rightarrow> real" "nat \<Rightarrow> real"
  | Dropout real
  | Identity
  | LeakyReLU
  | LogSoftmax
  | Sequential "module list"




definition log_softmax_row :: "real list \<Rightarrow> real list" where
  \<comment> \<open>\<^verbatim>\<open>nn.LogSoftmax(dim=1)\<close> on one row\<close>
  "log_softmax_row row = map (\<lambda>v. v - ln (sum_list (map exp row))) row"


definition fc_dim_list :: "nat \<Rightarrow> nat list" where
  "fc_dim_list in_dim = [in_dim, 512, 256, 256, 128, 128]"

text \<open>
  The parameters that \<^verbatim>\<open>nn.Linear\<close> draws at construction (and training later changes)
  are an argument of the constructors: \<open>params i\<close> is the weight and the bias of the
  \<open>i\<close>-th \<^verbatim>\<open>Linear\<close> layer. \<open>training\<close> is the mode flag of \<^verbatim>\<open>nn.Module\<close>, set at
  construction.
\<close>

type_synonym linear_params = "nat \<Rightarrow> (nat \<Rightarrow> nat \<Rightarrow> real) \<times> (nat \<Rightarrow> real)"

record regressioner =
  reg_in_dim :: nat
  reg_output_dim :: nat
  reg_fc_layers :: int
  reg_cuda :: bool
  reg_dropout :: bool
  reg_training :: bool
  reg_fc :: "module list"

definition Regressioner_init ::
  "linear_params \<Rightarrow> nat \<Rightarrow> nat \<Rightarrow> int \<Rightarrow> bool \<Rightarrow> bool \<Rightarrow> error + regressioner" where
  "Regressioner_init params in_dim output_dim' fc_layers' cuda' dropout' =
     (if \<not> (fc_layers' \<le> 5 \<and> fc_layers' > 0) then Inl (AssertionError [])
      else (let dims = fc_dim_list in_dim;
                fc_list = map (\<lambda>i. Sequential
                            [Linear (dims ! i) (dims ! (i + 1)) (fst (params i)) (snd (params i)),
                             if dropout' then Dropout (1 / 10) else Identity,
                             LeakyReLU]) [0..<nat fc_layers'];
                n = nat fc_layers'
            in Inr \<lparr>reg_in_dim = in_dim, reg_output_dim = output_dim',
                    reg_fc_layers = fc_layers', reg_cuda = cuda', reg_dropout = dropout',
                    reg_training = True,
                    reg_fc = fc_list @ [Linear (dims ! n) output_dim' (fst (params n)) (snd (params n))]\<rparr>))"



record classifier =
  cls_in_dim :: nat
  cls_fc_layers :: int
  cls_cuda :: bool
  cls_dropout :: bool
  cls_training :: bool
  cls_fc :: module

definition Classifier_init ::
  "linear_params \<Rightarrow> nat \<Rightarrow> int \<Rightarrow> bool \<Rightarrow> bool \<Rightarrow> error + classifier" where
  "Classifier_init params in_dim fc_layers' cuda' dropout' =
     (if \<not> (fc_layers' \<le> 5 \<and> fc_layers' > 0) then Inl (AssertionError [])
      else (let dims = fc_dim_list in_dim;
                fc_list = concat (map (\<lambda>i.
                            [Linear (dims ! i) (dims ! (i + 1)) (fst (params i)) (snd (params i))]
                            @ (if dropout' then [Dropout (1 / 10)] else [])
                            @ [LeakyReLU]) [0..<nat fc_layers']);
                n = nat fc_layers'
            in Inr \<lparr>cls_in_dim = in_dim, cls_fc_layers = fc_layers', cls_cuda = cuda',
                    cls_dropout = dropout', cls_training = True,
                    cls_fc = Sequential (fc_list
                               @ [Linear (dims ! n) 2 (fst (params n)) (snd (params n)),
                                  LogSoftmax])\<rparr>))"



section \<open>An example environment\<close>

text \<open>
  A small stand-in for the imported constructors, used to instantiate the theorems: the
  backbone sums every window of the batch into one time step of \<open>cdim\<close> channels, the
  recurrent network adds the initial hidden state to every time step.
\<close>

definition example_backbone :: "nat \<Rightarrow> nat \<Rightarrow> backbone" where
  "example_backbone cdim seq t =
     (case shape t of
        [b, c, L] \<Rightarrow>
          (if c = seq
           then Inr \<lparr>shape = [b, cdim, 1],
                    data = concat (map (\<lambda>i. replicate cdim
                             (sum_list (take (c * L) (drop (i * (c * L)) (data t))))) [0..<b])\<rparr>
           else Inl RuntimeError)
      | _ \<Rightarrow> Inl RuntimeError)"

definition example_lstm :: "nat \<Rightarrow> nat \<Rightarrow> recurrent" where
  "example_lstm n_in n_hid x hidden =
     (case shape x of
        [T, b, c] \<Rightarrow>
          (if c \<noteq> n_in \<or> n_in \<noteq> n_hid then Inl RuntimeError
           else (case hidden of
                   None \<Rightarrow> Inr (x, (zeros [1, b, n_hid], zeros [1, b, n_hid]))
                 | Some (h, c0) \<Rightarrow>
                     (if shape h = [1, b, n_hid] \<and> shape c0 = [1, b, n_hid]
                      then Inr (\<lparr>shape = [T, b, n_hid],
                                 data = map (\<lambda>n. data x ! n + data h ! (n mod (b * n_hid)))
                                          [0..<T * b * n_hid]\<rparr>, (h, c0))
                      else Inl RuntimeError)))
      | _ \<Rightarrow> Inl RuntimeError)"

definition example_env :: environment where
  "example_env = \<lparr>resnet = (\<lambda>depth. example_backbone (case resdim depth of Some d \<Rightarrow> d | None \<Rightarrow> 0)),
                   lstm = example_lstm,
                   conv_weight = (\<lambda>oc k. if oc = k then 1 else 0),
                   conv_bias = (\<lambda>oc. 0)\<rparr>"

definition example_params :: linear_params where
  "example_params i = ((\<lambda>j k. if j = k then 1 else 0), (\<lambda>j. 0))"

definition constant_rng :: "nat \<Rightarrow> rng" where
  "constant_rng c = (\<lambda>n. c)"

definition example_extractor :: feature_extractor where
  \<comment> \<open>what the constructor builds in the example environment for windows of 32 samples
      on 3 channels, with depth 18\<close>
  "example_extractor =
     \<lparr>time_len = 32, sequence_num = 3, output_dim = 512, cnn_type = ''resnet'',
      time_type = ''lstm'', fc_layers = 2, cuda = True, dropout = False, cnn_config = 18,
      conv = example_backbone 512 3, time_hid_dim = 512, time_net = example_lstm 512 512,
      conv1x1 = \<lparr>in_channels = 512, out_channels = 512,
                 cweight = (\<lambda>oc k. if oc = k then 1 else 0), cbias = (\<lambda>oc. 0)\<rparr>,
      fc_dim = 512\<rparr>"


section \<open>Predicates of the statements\<close>




section \<open>Basic facts\<close>

lemma bind_err_simps [simp]:
  "bind_err (Inl e) f = Inl e"
  "bind_err (Inr v) f = f v"
  by (simp_all add: bind_err_def)

section \<open>Construction\<close>

text \<open>
  Claim C5. Construction fails exactly on an invalid configuration. Both head
  constructors return an object exactly when \<open>fc_layers\<close> lies in \<open>[1, 5]\<close> and raise the
  assertion error exactly when it lies outside. The FeatureExtractor constructor ends
  with \<^verbatim>\<open>SystemExit(-1)\<close> for every depth outside 18, 34, 50, 101, 152 when the family
  is \<open>resnet\<close>, and raises \<^verbatim>\<open>NotImplementedError\<close> for every other family.
\<close>

theorem construction_fails_on_invalid_configuration:
  "((\<exists>r. Regressioner_init params i od n c d = Inr r) \<longleftrightarrow> 1 \<le> n \<and> n \<le> 5)
   \<and> (Regressioner_init params i od n c d = Inl (AssertionError []) \<longleftrightarrow> n < 1 \<or> 5 < n)
   \<and> ((\<exists>r. Classifier_init params i n c d = Inr r) \<longleftrightarrow> 1 \<le> n \<and> n \<le> 5)
   \<and> (Classifier_init params i n c d = Inl (AssertionError []) \<longleftrightarrow> n < 1 \<or> 5 < n)
   \<and> (ct = ''resnet'' \<and> cfg \<notin> {18, 34, 50, 101, 152} \<longrightarrow>
        FeatureExtractor_init env g tlen sq od' ct tt fl cfg cu dr = Inl (SystemExit (- 1)))
   \<and> (ct \<noteq> ''resnet'' \<longrightarrow>
        FeatureExtractor_init env g tlen sq od' ct tt fl cfg cu dr = Inl NotImplementedError)"
proof -
  have reg: "(\<exists>r. Regressioner_init params i od n c d = Inr r) \<longleftrightarrow> 1 \<le> n \<and> n \<le> 5"
    "Regressioner_init params i od n c d = Inl (AssertionError []) \<longleftrightarrow> n < 1 \<or> 5 < n"
    by (auto simp: Regressioner_init_def Let_def)
  have cls: "(\<exists>r. Classifier_init params i n c d = Inr r) \<longleftrightarrow> 1 \<le> n \<and> n \<le> 5"
    "Classifier_init params i n c d = Inl (AssertionError []) \<longleftrightarrow> n < 1 \<or> 5 < n"
    by (auto simp: Classifier_init_def Let_def)
  have depth: "ct = ''resnet'' \<and> cfg \<notin> {18, 34, 50, 101, 152} \<longrightarrow>
        FeatureExtractor_init env g tlen sq od' ct tt fl cfg cu dr = Inl (SystemExit (- 1))"
    by (simp add: FeatureExtractor_init_def select_resnet_def)
  have family: "ct \<noteq> ''resnet'' \<longrightarrow>
        FeatureExtractor_init env g tlen sq od' ct tt fl cfg cu dr = Inl NotImplementedError"
    by (simp add: FeatureExtractor_init_def)
  from reg cls depth family show ?thesis by blast
qed

theorem construction_fails_on_invalid_configuration_witness:
  "Regressioner_init example_params 8 1 7 True False = Inl (AssertionError [])
   \<and> (\<exists>r. Regressioner_init example_params 8 1 3 True False = Inr r)
   \<and> Classifier_init example_params 8 0 True False = Inl (AssertionError [])
   \<and> (\<exists>r. Classifier_init example_params 8 5 True False = Inr r)
   \<and> FeatureExtractor_init example_env (constant_rng 0) 32 3 512 ''resnet'' ''lstm'' 2 19 True False
       = Inl (SystemExit (- 1))
   \<and> FeatureExtractor_init example_env (constant_rng 0) 32 3 512 ''vgg'' ''lstm'' 2 19 True False
       = Inl NotImplementedError"
proof -
  note a = construction_fails_on_invalid_configuration
    [of example_params 8 1 7 True False "''resnet''" 19 example_env "constant_rng 0" 32 3 512 "''lstm''" 2 True False]
  note b = construction_fails_on_invalid_configuration
    [of example_params 8 1 3 True False "''vgg''" 19 example_env "constant_rng 0" 32 3 512 "''lstm''" 2 True False]
  note c = construction_fails_on_invalid_configuration
    [of example_params 8 1 0 True False "''vgg''" 19 example_env "constant_rng 0" 32 3 512 "''lstm''" 2 True False]
  note e = construction_fails_on_invalid_configuration
    [of example_params 8 1 5 True False "''vgg''" 19 example_env "constant_rng 0" 32 3 512 "''lstm''" 2 True False]
  from a have 1: "Regressioner_init example_params 8 1 7 True False = Inl (AssertionError [])"
    and 5: "FeatureExtractor_init example_env (constant_rng 0) 32 3 512 ''resnet'' ''lstm'' 2 19 True False
       = Inl (SystemExit (- 1))" by simp_all
  from b have 2: "\<exists>r. Regressioner_init example_params 8 1 3 True False = Inr r"
    and 6: "FeatureExtractor_init example_env (constant_rng 0) 32 3 512 ''vgg'' ''lstm'' 2 19 True False
       = Inl NotImplementedError" by simp_all
  from c have 3: "Classifier_init example_params 8 0 True False = Inl (AssertionError [])" by simp
  from e have 4: "\<exists>r. Classifier_init example_params 8 5 True False = Inr r" by simp
  from 1 2 3 4 5 6 show ?thesis by blast
qed

section \<open>The batch argument\<close>

text \<open>
  Claim C9. \<^verbatim>\<open>get_feature\<close> ignores the batch value passed in: it rebinds \<open>batch\<close> to
  the leading dimension of \<open>dynamic\<close>, so its result, the initial recurrent state
  included, is the same for every value of the argument.
\<close>

theorem get_feature_ignores_batch_argument:
  "get_feature self g dynamic batch reset = get_feature self g dynamic batch' reset"
  by (simp add: get_feature_def)

section \<open>The heads\<close>




lemma length_log_softmax_row [simp]: "length (log_softmax_row row) = length row"
  by (simp add: log_softmax_row_def)





















section \<open>Shapes that \<^verbatim>\<open>get_feature\<close> and \<^verbatim>\<open>forward\<close> reject or adapt\<close>

text \<open>
  Claim C10. \<^verbatim>\<open>get_feature\<close> takes a rank-2 input \<open>[batch, time_len]\<close> as the rank-3
  input \<open>[batch, 1, time_len]\<close> with the same elements: the two calls have the same
  result. The channel dimension is inserted before the channel-count assertion, so the
  rank-2 input is rejected by that assertion when \<open>sequence_num\<close> is not 1 and passes it
  when \<open>sequence_num\<close> is 1.
\<close>

theorem get_feature_rank2_input:
 "get_feature self g \<lparr>shape = [b, L], data = d\<rparr> batch reset
    = get_feature self g \<lparr>shape = [b, 1, L], data = d\<rparr> batch reset
  \<and> (sequence_num self \<noteq> 1 \<longrightarrow>
       get_feature self g \<lparr>shape = [b, L], data = d\<rparr> batch reset
         = Inl (AssertionError (''Dynamic shape: '' @ show_size [b, 1, L]
                                @ '' seq num: '' @ show_nat (sequence_num self))))
  \<and> (sequence_num self = 1 \<longrightarrow>
       channel_assert self \<lparr>shape = [b, L], data = d\<rparr> = Inr \<lparr>shape = [b, 1, L], data = d\<rparr>)"
  by (simp add: get_feature_def channel_assert_def unsqueeze1_def)

theorem get_feature_rank2_input_witness:
  "get_feature (example_extractor\<lparr>sequence_num := 1\<rparr>) (constant_rng 0) \<lparr>shape = [1, 2], data = [1, 2]\<rparr> 1 False
    = get_feature (example_extractor\<lparr>sequence_num := 1\<rparr>) (constant_rng 0) \<lparr>shape = [1, 1, 2], data = [1, 2]\<rparr> 1 False
   \<and> channel_assert (example_extractor\<lparr>sequence_num := 1\<rparr>) \<lparr>shape = [1, 2], data = [1, 2]\<rparr> = Inr \<lparr>shape = [1, 1, 2], data = [1, 2]\<rparr>
   \<and> get_feature example_extractor (constant_rng 0) \<lparr>shape = [1, 2], data = [1, 2]\<rparr> 1 False
      = Inl (AssertionError ''Dynamic shape: torch.Size([1, 1, 2]) seq num: 3'')"
proof -
  note a = get_feature_rank2_input [of "example_extractor\<lparr>sequence_num := 1\<rparr>" "constant_rng 0" 1 2 "[1, 2]" 1 False]
  note b = get_feature_rank2_input [of example_extractor "constant_rng 0" 1 2 "[1, 2]" 1 False]
  have s: "sequence_num example_extractor = 3" by (simp add: example_extractor_def)
  have m: "show_size [1, 1, 2] = ''torch.Size([1, 1, 2])''" "show_nat 3 = ''3''"
    by (simp_all add: show_size_def digit_char_def)
  from a have 1: "get_feature (example_extractor\<lparr>sequence_num := 1\<rparr>) (constant_rng 0) \<lparr>shape = [1, 2], data = [1, 2]\<rparr> 1 False
    = get_feature (example_extractor\<lparr>sequence_num := 1\<rparr>) (constant_rng 0) \<lparr>shape = [1, 1, 2], data = [1, 2]\<rparr> 1 False"
    and 2: "channel_assert (example_extractor\<lparr>sequence_num := 1\<rparr>) \<lparr>shape = [1, 2], data = [1, 2]\<rparr> = Inr \<lparr>shape = [1, 1, 2], data = [1, 2]\<rparr>"
    by simp_all
  from b [THEN conjunct2, THEN conjunct1] s m have 3: "get_feature example_extractor (constant_rng 0) \<lparr>shape = [1, 2], data = [1, 2]\<rparr> 1 False
      = Inl (AssertionError ''Dynamic shape: torch.Size([1, 1, 2]) seq num: 3'')"
    by simp
  from 1 2 3 show ?thesis by blast
qed

text \<open>
  Claim C6. For an input of rank 2 or more whose channel count (1 for a rank-2 input,
  which gets the inserted channel dimension) differs from \<open>sequence_num\<close>,
  \<^verbatim>\<open>get_feature\<close> raises an assertion error whose message holds the printed shape of the
  tensor. For a series whose length is not divisible by the window length,
  \<^verbatim>\<open>forward\<close> without precomputed features raises an assertion error whose message
  holds the printed shape of the series.
\<close>

theorem shape_mismatch_assertions:
  "(2 \<le> length (shape dynamic)
     \<and> shp = (if length (shape dynamic) = 2 then [shape dynamic ! 0, 1, shape dynamic ! 1] else shape dynamic)
     \<and> shp ! 1 \<noteq> sequence_num self
    \<longrightarrow> get_feature self g dynamic batch reset
          = Inl (AssertionError (''Dynamic shape: '' @ show_size shp
                                 @ '' seq num: '' @ show_nat (sequence_num self))))
   \<and> (shape series \<noteq> [] \<and> 0 < time_len self \<and> last (shape series) mod time_len self \<noteq> 0
    \<longrightarrow> forward self np g series None batch reset
          = Inl (AssertionError (''dynamic shape: '' @ show_size (shape series))))"
proof -
  have 1: "get_feature self g dynamic batch reset
          = Inl (AssertionError (''Dynamic shape: '' @ show_size shp
                                 @ '' seq num: '' @ show_nat (sequence_num self)))"
    if "2 \<le> length (shape dynamic)"
     and "shp = (if length (shape dynamic) = 2 then [shape dynamic ! 0, 1, shape dynamic ! 1] else shape dynamic)"
     and "shp ! 1 \<noteq> sequence_num self"
  proof (cases "shape dynamic")
    case Nil
    with that show ?thesis by simp
  next
    case (Cons a rest)
    show ?thesis
    proof (cases "length (shape dynamic) = 2")
      case True
      with Cons obtain c where "shape dynamic = [a, c]"
        by (cases rest) (auto simp: length_Suc_conv)
      with that show ?thesis
        by (simp add: get_feature_def channel_assert_def unsqueeze1_def)
    next
      case False
      with that Cons have "rest \<noteq> []" by auto
      with False that Cons show ?thesis
        by (simp add: get_feature_def channel_assert_def)
    qed
  qed
  have 2: "forward self np g series None batch reset
          = Inl (AssertionError (''dynamic shape: '' @ show_size (shape series)))"
    if "shape series \<noteq> []" "0 < time_len self" "last (shape series) mod time_len self \<noteq> 0"
    using that by (simp add: forward_def draw_windows_def)
  from 1 2 show ?thesis by blast
qed

theorem shape_mismatch_assertions_witness:
  "get_feature example_extractor (constant_rng 0) (zeros [1, 2, 32]) 1 True
     = Inl (AssertionError ''Dynamic shape: torch.Size([1, 2, 32]) seq num: 3'')
   \<and> forward example_extractor (constant_rng 0) (constant_rng 0) (zeros [1, 3, 33]) None 1 True
     = Inl (AssertionError ''dynamic shape: torch.Size([1, 3, 33])'')"
proof -
  note t = shape_mismatch_assertions
    [of "zeros [1, 2, 32]" "[1, 2, 32]" example_extractor "constant_rng 0" 1 True "zeros [1, 3, 33]"
        "constant_rng 0"]
  have m: "show_size [1, 2, 32] = ''torch.Size([1, 2, 32])''"
    "show_size [1, 3, 33] = ''torch.Size([1, 3, 33])''" "show_nat 3 = ''3''"
    by (simp_all add: show_size_def digit_char_def)
  have s: "sequence_num example_extractor = 3" "time_len example_extractor = 32"
    by (simp_all add: example_extractor_def)
  from t m s show ?thesis by (simp add: zeros_def)
qed

section \<open>The initial recurrent state\<close>






section \<open>Shapes through \<^verbatim>\<open>get_feature\<close> and \<^verbatim>\<open>forward\<close>\<close>


































section \<open>Determinism under seeding\<close>







end
